theory Spec2Isabelle
  imports Complex_Main
begin

section \<open>UOP CarbonTrace: calibration, colour extraction and export\<close>

text \<open>
  The repository holds two versions of one PySide6 window class, \<^verbatim>\<open>UOP_CarbonTrace.py\<close>
  and \<^verbatim>\<open>UOP_CarbonTrace_v2.py\<close>. The methods with semantic content are
  \<^verbatim>\<open>select_by_color\<close> (the same text in both files) and \<^verbatim>\<open>save_data\<close> (the two
  files differ in how a missing anchor location is reported and in where the scale kind is
  read from).

  Numbers: Python floats and numpy scalars are modelled as \<^typ>\<open>real\<close>. Rounding,
  overflow and the values inf and nan are outside the model. Where the source divides, the
  model follows Python's float division, which raises \<^verbatim>\<open>ZeroDivisionError\<close> on a zero
  divisor (numpy scalars would produce inf or nan at the same place; in either case the
  source has no check of its own there). \<^verbatim>\<open>math.log10\<close> raises \<^verbatim>\<open>ValueError\<close> on an
  argument that is not positive.

  Library functions whose code is not part of the repository are parameters of the model:
  \<^verbatim>\<open>float_of\<close> and \<^verbatim>\<open>int_of\<close> stand for Python's \<^verbatim>\<open>float()\<close> and \<^verbatim>\<open>int()\<close> on a
  text (\<open>None\<close> when they raise \<^verbatim>\<open>ValueError\<close>), \<^verbatim>\<open>str_of\<close> for the formatting of a
  float inside an f-string, and \<^verbatim>\<open>path\<close> for the answer of the file dialog.
\<close>

subsection \<open>State of the window\<close>

datatype exn = ValueError | ZeroDivisionError | TypeError

record anchor =
  pixel :: "real option"
  val :: "real option"
  name :: string

text \<open>
  \<^verbatim>\<open>self.calibration\<close> is a dict with the four keys below, created in this order and never
  extended; \<^verbatim>\<open>items()\<close> walks it in insertion order. The field \<^verbatim>\<open>name\<close> exists in
  version 2 only, version 1 never reads it.
\<close>

record calibration =
  x_min :: anchor
  x_max :: anchor
  y_min :: anchor
  y_max :: anchor

definition items :: "calibration \<Rightarrow> (string \<times> anchor) list" where
  "items cal = [(''x_min'', x_min cal), (''x_max'', x_max cal),
                (''y_min'', y_min cal), (''y_max'', y_max cal)]"

text \<open>
  An image is a numpy array indexed by row, column and channel. The text fields and the
  radio buttons are widgets of the window; only their current content is modelled.
\<close>

type_synonym image = "real list list list"

record window =
  img :: "image option"
  calibration :: calibration
  data_points :: "(real \<times> real) list"
  x_scale_type :: string
  y_scale_type :: string
  rad_x_log :: bool
  rad_y_log :: bool
  in_xmin :: string
  in_xmax :: string
  in_ymin :: string
  in_ymax :: string
  in_r :: string
  in_g :: string
  in_b :: string
  in_tol :: string

definition init_calibration :: calibration where
  "init_calibration =
     \<lparr>x_min = \<lparr>pixel = None, val = None, name = ''X Min''\<rparr>,
      x_max = \<lparr>pixel = None, val = None, name = ''X Max''\<rparr>,
      y_min = \<lparr>pixel = None, val = None, name = ''Y Min''\<rparr>,
      y_max = \<lparr>pixel = None, val = None, name = ''Y Max''\<rparr>\<rparr>"

definition init_window :: window where
  "init_window =
     \<lparr>img = None, calibration = init_calibration, data_points = [],
      x_scale_type = ''linear'', y_scale_type = ''linear'',
      rad_x_log = False, rad_y_log = False,
      in_xmin = [], in_xmax = [], in_ymin = [], in_ymax = [],
      in_r = ''0'', in_g = ''0'', in_b = ''0'', in_tol = ''10''\<rparr>"

subsection \<open>What a call of \<^verbatim>\<open>save_data\<close> shows to the user\<close>

text \<open>
  \<open>Warning title text\<close>: \<^verbatim>\<open>QMessageBox.warning\<close> followed by \<^verbatim>\<open>return\<close>.
  \<open>Raised e\<close>: an exception leaves the method, no message box is shown, no file is opened.
  \<open>Cancelled\<close>: the file dialog returned the empty path, nothing is written.
  \<open>Written path content\<close>: the file at \<open>path\<close> was written with \<open>content\<close>.
\<close>

datatype outcome =
    Warning string string
  | Raised exn
  | Cancelled
  | Written string string

definition newline :: string where
  "newline = [CHR 0x0A]"

fun join :: "string \<Rightarrow> string list \<Rightarrow> string" where
  "join sep [] = []"
| "join sep [x] = x"
| "join sep (x # y # ys) = x @ sep @ join sep (y # ys)"

subsection \<open>The validation of \<^verbatim>\<open>save_data\<close>\<close>

text \<open>
  Version 1: the loop returns at the first key whose pixel is \<^verbatim>\<open>None\<close>.
\<close>

fun first_missing :: "(string \<times> anchor) list \<Rightarrow> string option" where
  "first_missing [] = None"
| "first_missing ((key, data) # rest) =
     (if pixel data = None then Some key else first_missing rest)"

text \<open>
  Version 2: the loop collects the \<^verbatim>\<open>name\<close> of every anchor whose pixel is \<^verbatim>\<open>None\<close>.
\<close>

fun missing_cal :: "(string \<times> anchor) list \<Rightarrow> string list" where
  "missing_cal [] = []"
| "missing_cal ((key, data) # rest) =
     (if pixel data = None then name data # missing_cal rest else missing_cal rest)"

definition missing_msg :: "string list \<Rightarrow> string" where
  "missing_msg ms =
     ''You forgot to set the location for:'' @ newline @
     join newline (map (\<lambda>m. ''- '' @ m) ms)"

text \<open>
  The \<^verbatim>\<open>try\<close> block: the four texts are tested for emptiness first; then each value is
  parsed and stored at once, so a text that does not parse leaves the values before it
  stored.
\<close>

definition input_empty :: outcome where
  "input_empty = Warning ''Input Error'' ''Please enter values for all 4 axes limits.''"

definition input_invalid :: outcome where
  "input_invalid = Warning ''Input Error'' ''Axes values must be valid numbers.''"

definition set_x_min_val :: "real \<Rightarrow> window \<Rightarrow> window" where
  "set_x_min_val v w =
     w\<lparr>calibration := (calibration w)\<lparr>x_min := (x_min (calibration w))\<lparr>val := Some v\<rparr>\<rparr>\<rparr>"

definition set_x_max_val :: "real \<Rightarrow> window \<Rightarrow> window" where
  "set_x_max_val v w =
     w\<lparr>calibration := (calibration w)\<lparr>x_max := (x_max (calibration w))\<lparr>val := Some v\<rparr>\<rparr>\<rparr>"

definition set_y_min_val :: "real \<Rightarrow> window \<Rightarrow> window" where
  "set_y_min_val v w =
     w\<lparr>calibration := (calibration w)\<lparr>y_min := (y_min (calibration w))\<lparr>val := Some v\<rparr>\<rparr>\<rparr>"

definition set_y_max_val :: "real \<Rightarrow> window \<Rightarrow> window" where
  "set_y_max_val v w =
     w\<lparr>calibration := (calibration w)\<lparr>y_max := (y_max (calibration w))\<lparr>val := Some v\<rparr>\<rparr>\<rparr>"

definition read_axes :: "(string \<Rightarrow> real option) \<Rightarrow> window \<Rightarrow> outcome option \<times> window" where
  "read_axes float_of w =
     (if in_xmin w = [] \<or> in_xmax w = [] \<or> in_ymin w = [] \<or> in_ymax w = []
      then (Some input_empty, w)
      else
        (case float_of (in_xmin w) of
           None \<Rightarrow> (Some input_invalid, w)
         | Some a \<Rightarrow>
        (case float_of (in_xmax w) of
           None \<Rightarrow> (Some input_invalid, set_x_min_val a w)
         | Some b \<Rightarrow>
        (case float_of (in_ymin w) of
           None \<Rightarrow> (Some input_invalid, set_x_max_val b (set_x_min_val a w))
         | Some c \<Rightarrow>
        (case float_of (in_ymax w) of
           None \<Rightarrow> (Some input_invalid,
                     set_y_min_val c (set_x_max_val b (set_x_min_val a w)))
         | Some d \<Rightarrow> (None,
                     set_y_max_val d
                       (set_y_min_val c (set_x_max_val b (set_x_min_val a w)))))))))"

subsection \<open>Reconstruction\<close>

definition py_log10 :: "real \<Rightarrow> exn + real" where
  "py_log10 x = (if x \<le> 0 then Inl ValueError else Inr (log 10 x))"

definition py_div :: "real \<Rightarrow> real \<Rightarrow> exn + real" where
  "py_div a b = (if b = 0 then Inl ZeroDivisionError else Inr (a / b))"

text \<open>
  \<^verbatim>\<open>if is_log: v1, v2 = log10(v1), log10(v2)\<close>
\<close>

definition log_pair :: "bool \<Rightarrow> real \<Rightarrow> real \<Rightarrow> exn + real \<times> real" where
  "log_pair is_log v1 v2 =
     (if is_log
      then (case py_log10 v1 of
              Inl e \<Rightarrow> Inl e
            | Inr l1 \<Rightarrow> (case py_log10 v2 of Inl e \<Rightarrow> Inl e | Inr l2 \<Rightarrow> Inr (l1, l2)))
      else Inr (v1, v2))"

text \<open>
  \<^verbatim>\<open>res = v1 + (p - p1) * (v2 - v1) / (p2 - p1)\<close>
\<close>

definition interp :: "real \<Rightarrow> real \<Rightarrow> real \<Rightarrow> real \<Rightarrow> real \<Rightarrow> exn + real" where
  "interp v1 v2 p1 p2 p =
     (case py_div ((p - p1) * (v2 - v1)) (p2 - p1) of
        Inl e \<Rightarrow> Inl e
      | Inr q \<Rightarrow> Inr (v1 + q))"

text \<open>
  \<^verbatim>\<open>if is_log: res = 10**res\<close>
\<close>

definition unlog :: "bool \<Rightarrow> real \<Rightarrow> real" where
  "unlog is_log r = (if is_log then 10 powr r else r)"

text \<open>
  The local variables of one axis after the optional \<^verbatim>\<open>log10\<close>: the two pixels, the two
  values and the scale flag.
\<close>

record axis =
  px1 :: real
  px2 :: real
  v1 :: real
  v2 :: real
  is_log :: bool

text \<open>One pass of the loop body, and the loop over \<^verbatim>\<open>self.data_points\<close>.\<close>

definition point :: "axis \<Rightarrow> axis \<Rightarrow> real \<times> real \<Rightarrow> exn + real \<times> real" where
  "point ax ay p =
     (case interp (v1 ax) (v2 ax) (px1 ax) (px2 ax) (fst p) of
        Inl e \<Rightarrow> Inl e
      | Inr x_res \<Rightarrow>
          (case interp (v1 ay) (v2 ay) (px1 ay) (px2 ay) (snd p) of
             Inl e \<Rightarrow> Inl e
           | Inr y_res \<Rightarrow> Inr (unlog (is_log ax) x_res, unlog (is_log ay) y_res)))"

fun loop :: "axis \<Rightarrow> axis \<Rightarrow> (real \<times> real) list \<Rightarrow> exn + (real \<times> real) list" where
  "loop ax ay [] = Inr []"
| "loop ax ay (p # ps) =
     (case point ax ay p of
        Inl e \<Rightarrow> Inl e
      | Inr r \<Rightarrow> (case loop ax ay ps of Inl e \<Rightarrow> Inl e | Inr rs \<Rightarrow> Inr (r # rs)))"

text \<open>
  Reading the eight numbers out of the calibration. After the validation none of them is
  \<^verbatim>\<open>None\<close>; arithmetic on \<^verbatim>\<open>None\<close> would raise \<^verbatim>\<open>TypeError\<close>.
\<close>

definition numbers :: "anchor \<Rightarrow> anchor \<Rightarrow> exn + real \<times> real \<times> real \<times> real" where
  "numbers lo hi =
     (case (pixel lo, pixel hi, val lo, val hi) of
        (Some p1, Some p2, Some a, Some b) \<Rightarrow> Inr (p1, p2, a, b)
      | _ \<Rightarrow> Inl TypeError)"

definition mk_axis :: "bool \<Rightarrow> anchor \<Rightarrow> anchor \<Rightarrow> exn + axis" where
  "mk_axis flag lo hi =
     (case numbers lo hi of
        Inl e \<Rightarrow> Inl e
      | Inr (p1, p2, a, b) \<Rightarrow>
          (case log_pair flag a b of
             Inl e \<Rightarrow> Inl e
           | Inr (l1, l2) \<Rightarrow> Inr \<lparr>px1 = p1, px2 = p2, v1 = l1, v2 = l2, is_log = flag\<rparr>))"

definition real_data :: "bool \<Rightarrow> bool \<Rightarrow> calibration \<Rightarrow> (real \<times> real) list \<Rightarrow>
    exn + (real \<times> real) list" where
  "real_data is_x_log is_y_log cal pts =
     (case mk_axis is_x_log (x_min cal) (x_max cal) of
        Inl e \<Rightarrow> Inl e
      | Inr ax \<Rightarrow>
          (case mk_axis is_y_log (y_min cal) (y_max cal) of
             Inl e \<Rightarrow> Inl e
           | Inr ay \<Rightarrow> loop ax ay pts))"

subsection \<open>Writing the file\<close>

definition csv_line :: "(real \<Rightarrow> string) \<Rightarrow> real \<times> real \<Rightarrow> string" where
  "csv_line str_of r = str_of (fst r) @ '','' @ str_of (snd r) @ newline"

definition csv :: "(real \<Rightarrow> string) \<Rightarrow> (real \<times> real) list \<Rightarrow> string" where
  "csv str_of rows = ''x,y'' @ newline @ concat (map (csv_line str_of) rows)"

definition export :: "bool \<Rightarrow> bool \<Rightarrow> (real \<Rightarrow> string) \<Rightarrow> string \<Rightarrow> window \<Rightarrow> outcome" where
  "export is_x_log is_y_log str_of path w =
     (case real_data is_x_log is_y_log (calibration w) (data_points w) of
        Inl e \<Rightarrow> Raised e
      | Inr rows \<Rightarrow> (if path = [] then Cancelled else Written path (csv str_of rows)))"

subsection \<open>\<^verbatim>\<open>save_data\<close>, version 1 and version 2\<close>

definition save_data ::
    "(string \<Rightarrow> real option) \<Rightarrow> (real \<Rightarrow> string) \<Rightarrow> string \<Rightarrow> window \<Rightarrow> outcome \<times> window" where
  "save_data float_of str_of path w =
     (case first_missing (items (calibration w)) of
        Some key \<Rightarrow>
          (Warning ''Calibration Error'' (''Missing '' @ key @ '' location on the graph.''), w)
      | None \<Rightarrow>
          if data_points w = []
          then (Warning ''Data Error'' ''No trace data points found.'', w)
          else (case read_axes float_of w of
                  (Some warn, w') \<Rightarrow> (warn, w')
                | (None, w') \<Rightarrow>
                    (export (rad_x_log w') (rad_y_log w') str_of path w', w')))"

definition save_data_v2 ::
    "(string \<Rightarrow> real option) \<Rightarrow> (real \<Rightarrow> string) \<Rightarrow> string \<Rightarrow> window \<Rightarrow> outcome \<times> window" where
  "save_data_v2 float_of str_of path w =
     (if missing_cal (items (calibration w)) \<noteq> []
      then (Warning ''Calibration Missing'' (missing_msg (missing_cal (items (calibration w)))), w)
      else if data_points w = []
      then (Warning ''Data Error'' ''No trace data points found.'', w)
      else (case read_axes float_of w of
              (Some warn, w') \<Rightarrow> (warn, w')
            | (None, w') \<Rightarrow>
                (export (x_scale_type w' = ''log'') (y_scale_type w' = ''log'') str_of path w',
                 w')))"

text \<open>
  Statements that hold for both files are written once, over the version.
\<close>

datatype version = V1 | V2

fun save ::
    "version \<Rightarrow> (string \<Rightarrow> real option) \<Rightarrow> (real \<Rightarrow> string) \<Rightarrow> string \<Rightarrow> window \<Rightarrow>
     outcome \<times> window" where
  "save V1 = save_data"
| "save V2 = save_data_v2"

text \<open>
  Where each version reads the scale kind of an axis from: version 1 asks the radio button
  at export time, version 2 compares the stored \<^verbatim>\<open>x_scale_type\<close> with \<^verbatim>\<open>'log'\<close>.
\<close>

fun x_log :: "version \<Rightarrow> window \<Rightarrow> bool" where
  "x_log V1 w = rad_x_log w"
| "x_log V2 w = (x_scale_type w = ''log'')"

fun y_log :: "version \<Rightarrow> window \<Rightarrow> bool" where
  "y_log V1 w = rad_y_log w"
| "y_log V2 w = (y_scale_type w = ''log'')"

subsection \<open>\<^verbatim>\<open>select_by_color\<close>\<close>

text \<open>
  \<^verbatim>\<open>np.linalg.norm(img_rgb - target, axis=2)\<close> at one pixel: \<^verbatim>\<open>img_rgb\<close> keeps the first
  three channels of the pixel, so an alpha channel does not take part. The arrays that
  \<^verbatim>\<open>plt.imread\<close> returns for colour images have three or four channels and rows of equal
  length; arrays of another shape (which numpy would refuse or broadcast) are outside the
  model.
\<close>

definition dist :: "real list \<Rightarrow> real list \<Rightarrow> real" where
  "dist px target = sqrt (sum_list (map (\<lambda>(c, t). (c - t)\<^sup>2) (zip (take 3 px) target)))"

text \<open>
  \<^verbatim>\<open>y_idx, x_idx = np.where(dist < tol)\<close>: the positions that satisfy the comparison, in
  row-major order. The two index arrays have the same length and are kept as one list of
  pairs (row, column).
\<close>

definition np_where :: "image \<Rightarrow> real list \<Rightarrow> real \<Rightarrow> (nat \<times> nat) list" where
  "np_where im target tol =
     concat (map (\<lambda>y. map (\<lambda>x. (y, x))
                        (filter (\<lambda>x. dist (im ! y ! x) target < tol)
                                [0 ..< length (im ! y)]))
                 [0 ..< length im])"

text \<open>
  \<^verbatim>\<open>np.unique\<close>: the sorted array without repetitions. \<^verbatim>\<open>np.mean\<close>: the sum divided by
  the number of elements; the loop below takes it of selections that are not empty only.
\<close>

definition np_unique :: "nat list \<Rightarrow> nat list" where
  "np_unique xs = remdups_adj (sort xs)"

definition np_mean :: "nat list \<Rightarrow> real" where
  "np_mean ys = sum_list (map real ys) / real (length ys)"

text \<open>
  The loop over \<^verbatim>\<open>unique_x\<close>; \<^verbatim>\<open>y_idx[x_idx == ux]\<close> selects the rows of the matches in
  column \<^verbatim>\<open>ux\<close>.
\<close>

definition new_points :: "(nat \<times> nat) list \<Rightarrow> (real \<times> real) list" where
  "new_points idx =
     map (\<lambda>ux. (real ux, np_mean (map fst (filter (\<lambda>i. snd i = ux) idx))))
         (np_unique (map snd idx))"

text \<open>
  The text the method puts into the hint label: \<^verbatim>\<open>"Invalid color inputs."\<close> or
  \<^verbatim>\<open>f"Auto-traced {len(new_points)} points."\<close>. Without an image the method returns at
  once and sets no hint.
\<close>

datatype hint = Invalid_color_inputs | Auto_traced nat

definition select_by_color ::
    "(string \<Rightarrow> int option) \<Rightarrow> (string \<Rightarrow> real option) \<Rightarrow> window \<Rightarrow> hint option \<times> window" where
  "select_by_color int_of float_of w =
     (case img w of
        None \<Rightarrow> (None, w)
      | Some im \<Rightarrow>
     (case int_of (in_r w) of
        None \<Rightarrow> (Some Invalid_color_inputs, w)
      | Some r \<Rightarrow>
     (case int_of (in_g w) of
        None \<Rightarrow> (Some Invalid_color_inputs, w)
      | Some g \<Rightarrow>
     (case int_of (in_b w) of
        None \<Rightarrow> (Some Invalid_color_inputs, w)
      | Some b \<Rightarrow>
     (case float_of (in_tol w) of
        None \<Rightarrow> (Some Invalid_color_inputs, w)
      | Some t \<Rightarrow>
          (let tol = t / 100;
               target = [real_of_int r / 255, real_of_int g / 255, real_of_int b / 255];
               pts = new_points (np_where im target tol)
           in (Some (Auto_traced (length pts)), w\<lparr>data_points := data_points w @ pts\<rparr>)))))))"

subsection \<open>The transform as the specification words it\<close>

text \<open>
  Section 4.1 of the specification:
  \<^verbatim>\<open>value = vMin + (pixel - pMin) * (vMax - vMin) / (pMax - pMin)\<close> for a linear axis; for a
  logarithmic axis the same formula on the base-10 logarithms of the two values, followed
  by \<^verbatim>\<open>10^result\<close>.
\<close>

definition linear_value :: "real \<Rightarrow> real \<Rightarrow> real \<Rightarrow> real \<Rightarrow> real \<Rightarrow> real" where
  "linear_value pMin pMax vMin vMax p = vMin + (p - pMin) * (vMax - vMin) / (pMax - pMin)"

definition toRealValue :: "bool \<Rightarrow> real \<Rightarrow> real \<Rightarrow> real \<Rightarrow> real \<Rightarrow> real \<Rightarrow> real" where
  "toRealValue log_scale pMin pMax vMin vMax p =
     (if log_scale
      then 10 powr linear_value pMin pMax (log 10 vMin) (log 10 vMax) p
      else linear_value pMin pMax vMin vMax p)"

subsection \<open>Situations of the window\<close>

text \<open>
  \<open>located\<close>: the four anchor locations have been clicked. \<open>entered\<close>: the four value
  texts are not empty and \<^verbatim>\<open>float()\<close> accepts each. \<open>store_vals\<close>: the calibration after
  the four assignments of the \<^verbatim>\<open>try\<close> block.
\<close>

definition located :: "window \<Rightarrow> real \<Rightarrow> real \<Rightarrow> real \<Rightarrow> real \<Rightarrow> bool" where
  "located w pMin pMax qMin qMax \<longleftrightarrow>
     pixel (x_min (calibration w)) = Some pMin \<and> pixel (x_max (calibration w)) = Some pMax \<and>
     pixel (y_min (calibration w)) = Some qMin \<and> pixel (y_max (calibration w)) = Some qMax"

definition entered ::
    "(string \<Rightarrow> real option) \<Rightarrow> window \<Rightarrow> real \<Rightarrow> real \<Rightarrow> real \<Rightarrow> real \<Rightarrow> bool" where
  "entered float_of w vMin vMax uMin uMax \<longleftrightarrow>
     in_xmin w \<noteq> [] \<and> in_xmax w \<noteq> [] \<and> in_ymin w \<noteq> [] \<and> in_ymax w \<noteq> [] \<and>
     float_of (in_xmin w) = Some vMin \<and> float_of (in_xmax w) = Some vMax \<and>
     float_of (in_ymin w) = Some uMin \<and> float_of (in_ymax w) = Some uMax"

definition store_vals :: "real \<Rightarrow> real \<Rightarrow> real \<Rightarrow> real \<Rightarrow> window \<Rightarrow> window" where
  "store_vals a b c d w =
     set_y_max_val d (set_y_min_val c (set_x_max_val b (set_x_min_val a w)))"

definition pixels :: "window \<Rightarrow> real option list" where
  "pixels w = map (\<lambda>kd. pixel (snd kd)) (items (calibration w))"

subsection \<open>Texts and numbers of the examples\<close>

text \<open>
  Python's \<^verbatim>\<open>int()\<close> and \<^verbatim>\<open>float()\<close> on the texts that are an optional minus sign
  followed by decimal digits. Every other text is answered with \<open>None\<close>; Python accepts
  further notations, which the examples below do not use, and rejects a text such as
  \<^verbatim>\<open>abc\<close> with \<^verbatim>\<open>ValueError\<close>.
\<close>

fun digits :: "string \<Rightarrow> nat \<Rightarrow> nat option" where
  "digits [] acc = Some acc"
| "digits (c # cs) acc =
     (if 48 \<le> (of_char c :: nat) \<and> (of_char c :: nat) \<le> 57
      then digits cs (10 * acc + (of_char c - 48))
      else None)"

definition int_text :: "string \<Rightarrow> int option" where
  "int_text s =
     (case s of
        [] \<Rightarrow> None
      | c # cs \<Rightarrow>
          if c = CHR ''-''
          then (if cs = [] then None else map_option (\<lambda>n. - int n) (digits cs 0))
          else map_option int (digits s 0))"

definition float_text :: "string \<Rightarrow> real option" where
  "float_text s = map_option real_of_int (int_text s)"

text \<open>
  Python's \<^verbatim>\<open>str\<close> of a float whose value is a whole number of magnitude below \<open>10^16\<close>:
  the digits followed by \<^verbatim>\<open>.0\<close>. The examples write no other floats; on them the text
  is left empty.
\<close>

fun str_nat :: "nat \<Rightarrow> string" where
  "str_nat n =
     (if n < 10 then [char_of (48 + n)]
      else str_nat (n div 10) @ [char_of (48 + n mod 10)])"

definition str_float :: "real \<Rightarrow> string" where
  "str_float x =
     (if real_of_int \<lfloor>x\<rfloor> = x \<and> \<bar>x\<bar> < 10 ^ 16
      then (if x < 0 then ''-'' else []) @ str_nat (nat \<lfloor>\<bar>x\<bar>\<rfloor>) @ ''.0''
      else [])"

text \<open>
  A window after four calibration clicks at the pixels 0 and 100 of each axis and one
  traced point at pixel (50, 50), with the values 0 and 50 typed for both axes.
\<close>

definition clicked :: "real \<Rightarrow> real \<Rightarrow> real \<Rightarrow> real \<Rightarrow> calibration" where
  "clicked pMin pMax qMin qMax =
     \<lparr>x_min = \<lparr>pixel = Some pMin, val = None, name = ''X Min''\<rparr>,
      x_max = \<lparr>pixel = Some pMax, val = None, name = ''X Max''\<rparr>,
      y_min = \<lparr>pixel = Some qMin, val = None, name = ''Y Min''\<rparr>,
      y_max = \<lparr>pixel = Some qMax, val = None, name = ''Y Max''\<rparr>\<rparr>"

definition linear_window :: window where
  "linear_window =
     init_window\<lparr>calibration := clicked 0 100 0 100, data_points := [(50, 50)],
                 in_xmin := ''0'', in_xmax := ''50'', in_ymin := ''0'', in_ymax := ''50''\<rparr>"

text \<open>
  Both axes logarithmic, pixels 0 and 3, values 1 and 1000, traced points at the pixels
  (1, 1) and (2, 2).
\<close>

definition log_window :: window where
  "log_window =
     init_window\<lparr>calibration := clicked 0 3 0 3, data_points := [(1, 1), (2, 2)],
                 x_scale_type := ''log'', y_scale_type := ''log'',
                 rad_x_log := True, rad_y_log := True,
                 in_xmin := ''1'', in_xmax := ''1000'', in_ymin := ''1'', in_ymax := ''1000''\<rparr>"



definition no_points_window :: window where
  "no_points_window = linear_window\<lparr>data_points := [], in_xmax := ''abc''\<rparr>"

definition two_missing :: calibration where
  "two_missing =
     \<lparr>x_min = \<lparr>pixel = None, val = None, name = ''X Min''\<rparr>,
      x_max = \<lparr>pixel = Some 100, val = None, name = ''X Max''\<rparr>,
      y_min = \<lparr>pixel = Some 0, val = None, name = ''Y Min''\<rparr>,
      y_max = \<lparr>pixel = None, val = None, name = ''Y Max''\<rparr>\<rparr>"

definition two_missing_window :: window where
  "two_missing_window = linear_window\<lparr>calibration := two_missing\<rparr>"

text \<open>
  \<open>bad_xmax_window\<close>: the text typed for X Max is no number.
  \<open>bad_color_window\<close>: an image is loaded and the text typed for R is no number.
  \<open>failed\<close>: the call of \<^verbatim>\<open>save_data\<close> ended in a message box or in an exception.
\<close>

definition bad_xmax_window :: window where
  "bad_xmax_window = linear_window\<lparr>in_xmax := ''abc''\<rparr>"

fun failed :: "outcome \<Rightarrow> bool" where
  "failed (Warning t m) = True"
| "failed (Raised e) = True"
| "failed Cancelled = False"
| "failed (Written p c) = False"

definition bad_color_window :: window where
  "bad_color_window = init_window\<lparr>img := Some [[[0, 0, 0]]], in_r := ''red''\<rparr>"

text \<open>
  A 3 by 3 image with four channels: black pixels in column 0 at the rows 0 and 2 and in
  column 1 at row 1, white pixels elsewhere. \<open>color_window r tol\<close> has this image loaded,
  the texts \<open>r\<close>, 0, 0 typed for the colour and \<open>tol\<close> for the tolerance.
\<close>

definition black :: "real list" where "black = [0, 0, 0, 1]"

definition white :: "real list" where "white = [1, 1, 1, 1]"

definition demo_image :: image where
  "demo_image = [[black, white, white], [white, black, white], [black, white, white]]"

definition color_window :: "string \<Rightarrow> string \<Rightarrow> window" where
  "color_window r tol = init_window\<lparr>img := Some demo_image, in_r := r, in_tol := tol\<rparr>"

text \<open>
  The positions (row, column) of an image whose colour is nearer to the target than the
  tolerance.
\<close>

definition matches :: "image \<Rightarrow> real list \<Rightarrow> real \<Rightarrow> (nat \<times> nat) set" where
  "matches im target tol =
     {(y, x). y < length im \<and> x < length (im ! y) \<and> dist (im ! y ! x) target < tol}"

definition demo_matches :: "(nat \<times> nat) set" where
  "demo_matches = {(0, 0), (1, 1), (2, 0)}"

section \<open>Properties\<close>

subsection \<open>A complete calibration: what the export computes\<close>

lemma first_missing_items:
  "first_missing (items cal) = None \<longleftrightarrow>
     pixel (x_min cal) \<noteq> None \<and> pixel (x_max cal) \<noteq> None \<and>
     pixel (y_min cal) \<noteq> None \<and> pixel (y_max cal) \<noteq> None"
  by (simp add: items_def)

lemma missing_cal_items:
  "missing_cal (items cal) = [] \<longleftrightarrow>
     pixel (x_min cal) \<noteq> None \<and> pixel (x_max cal) \<noteq> None \<and>
     pixel (y_min cal) \<noteq> None \<and> pixel (y_max cal) \<noteq> None"
  by (simp add: items_def)

lemma read_axes_entered:
  "entered float_of w a b c d \<Longrightarrow> read_axes float_of w = (None, store_vals a b c d w)"
  by (simp add: entered_def read_axes_def store_vals_def)

lemma store_vals_sel [simp]:
  "data_points (store_vals a b c d w) = data_points w"
  "rad_x_log (store_vals a b c d w) = rad_x_log w"
  "rad_y_log (store_vals a b c d w) = rad_y_log w"
  "x_scale_type (store_vals a b c d w) = x_scale_type w"
  "y_scale_type (store_vals a b c d w) = y_scale_type w"
  "pixel (x_min (calibration (store_vals a b c d w))) = pixel (x_min (calibration w))"
  "pixel (x_max (calibration (store_vals a b c d w))) = pixel (x_max (calibration w))"
  "pixel (y_min (calibration (store_vals a b c d w))) = pixel (y_min (calibration w))"
  "pixel (y_max (calibration (store_vals a b c d w))) = pixel (y_max (calibration w))"
  "val (x_min (calibration (store_vals a b c d w))) = Some a"
  "val (x_max (calibration (store_vals a b c d w))) = Some b"
  "val (y_min (calibration (store_vals a b c d w))) = Some c"
  "val (y_max (calibration (store_vals a b c d w))) = Some d"
  by (simp_all add: store_vals_def set_x_min_val_def set_x_max_val_def set_y_min_val_def set_y_max_val_def)

lemma mk_axis_ok:
  assumes "pixel lo = Some p1" "pixel hi = Some p2" "val lo = Some a" "val hi = Some b"
    and "flag \<longrightarrow> 0 < a \<and> 0 < b"
  shows "mk_axis flag lo hi =
     Inr \<lparr>px1 = p1, px2 = p2, v1 = (if flag then log 10 a else a),
          v2 = (if flag then log 10 b else b), is_log = flag\<rparr>"
  using assms by (auto simp add: mk_axis_def numbers_def log_pair_def py_log10_def)

lemma point_ok:
  assumes "px1 ax \<noteq> px2 ax" "px1 ay \<noteq> px2 ay"
  shows "point ax ay p =
     Inr (unlog (is_log ax) (linear_value (px1 ax) (px2 ax) (v1 ax) (v2 ax) (fst p)),
          unlog (is_log ay) (linear_value (px1 ay) (px2 ay) (v1 ay) (v2 ay) (snd p)))"
  using assms by (simp add: point_def interp_def py_div_def linear_value_def)

lemma loop_ok:
  assumes "px1 ax \<noteq> px2 ax" "px1 ay \<noteq> px2 ay"
  shows "loop ax ay pts =
     Inr (map (\<lambda>p. (unlog (is_log ax) (linear_value (px1 ax) (px2 ax) (v1 ax) (v2 ax) (fst p)),
                    unlog (is_log ay) (linear_value (px1 ay) (px2 ay) (v1 ay) (v2 ay) (snd p)))) pts)"
  by (induction pts) (simp_all add: point_ok [OF assms])

lemma real_data_ok:
  assumes "pixel (x_min cal) = Some pMin" "pixel (x_max cal) = Some pMax"
    and "pixel (y_min cal) = Some qMin" "pixel (y_max cal) = Some qMax"
    and "val (x_min cal) = Some vMin" "val (x_max cal) = Some vMax"
    and "val (y_min cal) = Some uMin" "val (y_max cal) = Some uMax"
    and "pMin \<noteq> pMax" "qMin \<noteq> qMax"
    and "xl \<longrightarrow> 0 < vMin \<and> 0 < vMax" "yl \<longrightarrow> 0 < uMin \<and> 0 < uMax"
  shows "real_data xl yl cal pts =
     Inr (map (\<lambda>p. (toRealValue xl pMin pMax vMin vMax (fst p),
                    toRealValue yl qMin qMax uMin uMax (snd p))) pts)"
proof -
  have x: "mk_axis xl (x_min cal) (x_max cal) =
     Inr \<lparr>px1 = pMin, px2 = pMax, v1 = (if xl then log 10 vMin else vMin),
          v2 = (if xl then log 10 vMax else vMax), is_log = xl\<rparr>"
    using assms by (intro mk_axis_ok) auto
  have y: "mk_axis yl (y_min cal) (y_max cal) =
     Inr \<lparr>px1 = qMin, px2 = qMax, v1 = (if yl then log 10 uMin else uMin),
          v2 = (if yl then log 10 uMax else uMax), is_log = yl\<rparr>"
    using assms by (intro mk_axis_ok) auto
  show ?thesis
    using assms(9,10) by (simp add: real_data_def x y loop_ok toRealValue_def unlog_def)
qed

lemma save_ok:
  assumes "located w pMin pMax qMin qMax" "entered float_of w vMin vMax uMin uMax"
    and "data_points w \<noteq> []" "pMin \<noteq> pMax" "qMin \<noteq> qMax"
    and "x_log ver w \<longrightarrow> 0 < vMin \<and> 0 < vMax" "y_log ver w \<longrightarrow> 0 < uMin \<and> 0 < uMax"
  shows "save ver float_of str_of path w =
     (if path = [] then Cancelled
      else Written path (csv str_of
        (map (\<lambda>p. (toRealValue (x_log ver w) pMin pMax vMin vMax (fst p),
                   toRealValue (y_log ver w) qMin qMax uMin uMax (snd p))) (data_points w))),
      store_vals vMin vMax uMin uMax w)"
proof -
  let ?w = "store_vals vMin vMax uMin uMax w"
  have fm: "first_missing (items (calibration w)) = None"
    using assms(1) by (simp add: first_missing_items located_def)
  have mc: "missing_cal (items (calibration w)) = []"
    using assms(1) by (simp add: missing_cal_items located_def)
  have rd: "real_data (x_log ver w) (y_log ver w) (calibration ?w) (data_points w) =
     Inr (map (\<lambda>p. (toRealValue (x_log ver w) pMin pMax vMin vMax (fst p),
                   toRealValue (y_log ver w) qMin qMax uMin uMax (snd p))) (data_points w))"
    using assms by (intro real_data_ok) (simp_all add: located_def)
  show ?thesis
  proof (cases ver)
    case V1
    with rd show ?thesis
      using assms(3) by (simp add: save_data_def fm read_axes_entered [OF assms(2)] export_def)
  next
    case V2
    with rd show ?thesis
      using assms(3) by (simp add: save_data_v2_def mc read_axes_entered [OF assms(2)] export_def)
  qed
qed

subsection \<open>Every way in which \<^verbatim>\<open>save_data\<close> can end\<close>

lemma set_val_sel [simp]:
  "data_points (set_x_min_val v w) = data_points w"
  "data_points (set_x_max_val v w) = data_points w"
  "data_points (set_y_min_val v w) = data_points w"
  "data_points (set_y_max_val v w) = data_points w"
  "pixels (set_x_min_val v w) = pixels w"
  "pixels (set_x_max_val v w) = pixels w"
  "pixels (set_y_min_val v w) = pixels w"
  "pixels (set_y_max_val v w) = pixels w"
  by (simp_all add: set_x_min_val_def set_x_max_val_def set_y_min_val_def set_y_max_val_def
      pixels_def items_def)

lemma pixels_located:
  "None \<notin> set (pixels w) \<longleftrightarrow> (\<exists>pMin pMax qMin qMax. located w pMin pMax qMin qMax)"
proof
  assume "None \<notin> set (pixels w)"
  then have "\<forall>x \<in> set (pixels w). x \<noteq> None"
    by metis
  then show "\<exists>pMin pMax qMin qMax. located w pMin pMax qMin qMax"
    by (simp add: pixels_def items_def located_def)
next
  assume "\<exists>pMin pMax qMin qMax. located w pMin pMax qMin qMax"
  then show "None \<notin> set (pixels w)"
    by (auto simp add: pixels_def items_def located_def)
qed

lemma first_missing_pixels:
  "first_missing (items (calibration w)) = None \<longleftrightarrow> None \<notin> set (pixels w)"
  by (auto simp add: pixels_def items_def)

lemma missing_cal_pixels:
  "missing_cal (items (calibration w)) = [] \<longleftrightarrow> None \<notin> set (pixels w)"
  by (auto simp add: pixels_def items_def)

lemma read_axes_keeps:
  "data_points (snd (read_axes float_of w)) = data_points w"
  "pixels (snd (read_axes float_of w)) = pixels w"
  by (simp_all add: read_axes_def split: option.splits)

lemma read_axes_cases:
  assumes "read_axes float_of w = (r, w')"
  shows "(r = Some input_empty \<and> w' = w) \<or> r = Some input_invalid \<or>
         (r = None \<and> (\<exists>a b c d. entered float_of w a b c d \<and> w' = store_vals a b c d w))"
  using assms
  by (auto simp add: read_axes_def entered_def store_vals_def split: if_splits option.splits)

lemma save_missing:
  assumes "None \<in> set (pixels w)"
  shows "\<exists>t m. save ver float_of str_of path w = (Warning t m, w)"
proof (cases ver)
  case V1
  from assms have "first_missing (items (calibration w)) \<noteq> None"
    by (simp add: first_missing_pixels)
  then obtain key where "first_missing (items (calibration w)) = Some key" by blast
  with V1 show ?thesis by (simp add: save_data_def)
next
  case V2
  from assms have "missing_cal (items (calibration w)) \<noteq> []"
    by (simp add: missing_cal_pixels)
  with V2 show ?thesis by (simp add: save_data_v2_def)
qed

lemma save_no_data:
  assumes "None \<notin> set (pixels w)" "data_points w = []"
  shows "save ver float_of str_of path w =
           (Warning ''Data Error'' ''No trace data points found.'', w)"
proof -
  have fm: "first_missing (items (calibration w)) = None"
    using assms(1) by (simp add: first_missing_pixels)
  have mc: "missing_cal (items (calibration w)) = []"
    using assms(1) by (simp add: missing_cal_pixels)
  show ?thesis
    using assms(2) by (cases ver) (simp_all add: save_data_def save_data_v2_def fm mc)
qed

lemma save_read:
  assumes "None \<notin> set (pixels w)" "data_points w \<noteq> []"
  shows "save ver float_of str_of path w =
           (case read_axes float_of w of
              (Some warn, w') \<Rightarrow> (warn, w')
            | (None, w') \<Rightarrow> (export (x_log ver w') (y_log ver w') str_of path w', w'))"
proof -
  have fm: "first_missing (items (calibration w)) = None"
    using assms(1) by (simp add: first_missing_pixels)
  have mc: "missing_cal (items (calibration w)) = []"
    using assms(1) by (simp add: missing_cal_pixels)
  show ?thesis
    using assms(2)
    by (cases ver) (simp_all add: save_data_def save_data_v2_def fm mc split: prod.splits option.splits)
qed






subsection \<open>Arithmetic of the transform\<close>

lemma affine_unique:
  fixes a b :: real
  assumes "pMin \<noteq> pMax" "a * pMin + b = vMin" "a * pMax + b = vMax"
  shows "a * p + b = vMin + (p - pMin) * (vMax - vMin) / (pMax - pMin)"
proof -
  have "a * (pMax - pMin) = vMax - vMin" using assms by (simp add: algebra_simps)
  then have a: "(vMax - vMin) / (pMax - pMin) = a" using assms(1) by (simp add: field_simps)
  have b: "b = vMin - a * pMin" using assms(2) by simp
  have "(p - pMin) * (vMax - vMin) / (pMax - pMin) = (p - pMin) * ((vMax - vMin) / (pMax - pMin))"
    by simp
  then have "vMin + (p - pMin) * (vMax - vMin) / (pMax - pMin) = vMin + (p - pMin) * a"
    by (simp only: a)
  also have "\<dots> = a * p + b" unfolding b by (simp add: algebra_simps)
  finally show ?thesis by simp
qed

lemma log1000: "log 10 1000 = 3"
proof -
  have "(1000::real) = 10 powr 3" by simp
  then show ?thesis by (simp only: log_powr_cancel)
qed

lemma digits_ex: "float_text ''0'' = Some 0" "float_text ''50'' = Some 50" "float_text ''1000'' = Some 1000" "float_text ''1'' = Some 1"
  "float_text ''abc'' = None"  "float_text ''-5'' = Some (-5)"
  by (simp_all add: float_text_def int_text_def)


subsection \<open>Linear axes\<close>

text \<open>
  Claim C1. With the four locations clicked, the four values typed, at least one traced
  point, a file chosen and non-zero pixel spans, both versions write the file, and every
  coordinate of a linear axis is \<open>vMin + (p - pMin) * (vMax - vMin) / (pMax - pMin)\<close> of
  the traced pixel \<open>p\<close>. This function takes \<open>pMin\<close> to \<open>vMin\<close> and \<open>pMax\<close> to \<open>vMax\<close>,
  and it is the only function \<open>p \<mapsto> a * p + b\<close> that does. The example of the claim
  (pixels 0 and 100, values 0 and 50, pixel 50 gives 25) is the window \<open>linear_window\<close>.
\<close>

theorem linear_transform:
  assumes "located w pMin pMax qMin qMax" and "entered float_of w vMin vMax uMin uMax"
    and "data_points w \<noteq> []" and "path \<noteq> []" and "pMin \<noteq> pMax" and "qMin \<noteq> qMax"
    and "x_log ver w \<longrightarrow> 0 < vMin \<and> 0 < vMax" and "y_log ver w \<longrightarrow> 0 < uMin \<and> 0 < uMax"
  shows "(\<exists>X Y. fst (save ver float_of str_of path w) =
             Written path (csv str_of (map (\<lambda>p. (X (fst p), Y (snd p))) (data_points w))) \<and>
           (\<not> x_log ver w \<longrightarrow>
              X = (\<lambda>p. vMin + (p - pMin) * (vMax - vMin) / (pMax - pMin))) \<and>
           (\<not> y_log ver w \<longrightarrow>
              Y = (\<lambda>q. uMin + (q - qMin) * (uMax - uMin) / (qMax - qMin)))) \<and>
         vMin + (pMin - pMin) * (vMax - vMin) / (pMax - pMin) = vMin \<and>
         vMin + (pMax - pMin) * (vMax - vMin) / (pMax - pMin) = vMax \<and>
         (\<forall>a b. a * pMin + b = vMin \<and> a * pMax + b = vMax \<longrightarrow>
            (\<forall>p. a * p + b = vMin + (p - pMin) * (vMax - vMin) / (pMax - pMin)))"
proof -
  let ?X = "toRealValue (x_log ver w) pMin pMax vMin vMax"
  let ?Y = "toRealValue (y_log ver w) qMin qMax uMin uMax"
  have "fst (save ver float_of str_of path w) =
          Written path (csv str_of (map (\<lambda>p. (?X (fst p), ?Y (snd p))) (data_points w)))"
    using assms by (simp add: save_ok)
  moreover have "\<not> x_log ver w \<longrightarrow> ?X = (\<lambda>p. vMin + (p - pMin) * (vMax - vMin) / (pMax - pMin))"
    by (simp add: toRealValue_def linear_value_def fun_eq_iff)
  moreover have "\<not> y_log ver w \<longrightarrow> ?Y = (\<lambda>q. uMin + (q - qMin) * (uMax - uMin) / (qMax - qMin))"
    by (simp add: toRealValue_def linear_value_def fun_eq_iff)
  ultimately have ex: "\<exists>X Y. fst (save ver float_of str_of path w) =
             Written path (csv str_of (map (\<lambda>p. (X (fst p), Y (snd p))) (data_points w))) \<and>
           (\<not> x_log ver w \<longrightarrow>
              X = (\<lambda>p. vMin + (p - pMin) * (vMax - vMin) / (pMax - pMin))) \<and>
           (\<not> y_log ver w \<longrightarrow>
              Y = (\<lambda>q. uMin + (q - qMin) * (uMax - uMin) / (qMax - qMin)))"
    by blast
  have hi: "vMin + (pMax - pMin) * (vMax - vMin) / (pMax - pMin) = vMax"
    using assms(5) by simp
  have lo: "vMin + (pMin - pMin) * (vMax - vMin) / (pMax - pMin) = vMin"
    by simp
  have uniq: "\<forall>a b. a * pMin + b = vMin \<and> a * pMax + b = vMax \<longrightarrow>
            (\<forall>p. a * p + b = vMin + (p - pMin) * (vMax - vMin) / (pMax - pMin))"
    by (intro allI impI) (metis affine_unique [OF assms(5)])
  show ?thesis
    by (rule conjI [OF ex conjI [OF lo conjI [OF hi uniq]]])
qed

theorem linear_transform_witness:
  "located linear_window 0 100 0 100 \<and> entered float_text linear_window 0 50 0 50 \<and>
   data_points linear_window \<noteq> [] \<and> ''out.csv'' \<noteq> [] \<and> (0::real) \<noteq> 100 \<and>
   \<not> x_log V1 linear_window \<and> \<not> y_log V1 linear_window \<and>
   \<not> x_log V2 linear_window \<and> \<not> y_log V2 linear_window \<and>
   fst (save V1 float_text str_float ''out.csv'' linear_window) =
     Written ''out.csv'' (csv str_float [(25, 25)]) \<and>
   fst (save V2 float_text str_float ''out.csv'' linear_window) =
     Written ''out.csv'' (csv str_float [(25, 25)])"
proof -
  have loc: "located linear_window 0 100 0 100"
    by (simp add: located_def linear_window_def clicked_def)
  have ent: "entered float_text linear_window 0 50 0 50"
    by (simp add: entered_def linear_window_def digits_ex)
  have pts: "data_points linear_window = [(50, 50)]"
    by (simp add: linear_window_def)
  have lin: "\<not> x_log V1 linear_window" "\<not> y_log V1 linear_window"
      "\<not> x_log V2 linear_window" "\<not> y_log V2 linear_window"
    by (simp_all add: linear_window_def init_window_def)
  have ne: "data_points linear_window \<noteq> []" "''out.csv'' \<noteq> []" "(0::real) \<noteq> 100"
    by (simp_all add: pts)
  have a: "fst (save V1 float_text str_float ''out.csv'' linear_window) =
     Written ''out.csv'' (csv str_float [(25, 25)])"
    using linear_transform [OF loc ent ne(1) ne(2) ne(3) ne(3), of V1 str_float] lin
    by (auto simp add: pts)
  have b: "fst (save V2 float_text str_float ''out.csv'' linear_window) =
     Written ''out.csv'' (csv str_float [(25, 25)])"
    using linear_transform [OF loc ent ne(1) ne(2) ne(3) ne(3), of V2 str_float] lin
    by (auto simp add: pts)
  from loc ent ne lin a b show ?thesis by simp
qed

subsection \<open>The windows of the examples\<close>

lemma log_window_facts:
  "located log_window 0 3 0 3" "entered float_text log_window 1 1000 1 1000"
  "data_points log_window = [(1, 1), (2, 2)]"
  "x_log ver log_window" "y_log ver log_window"
  by (cases ver; simp add: located_def entered_def log_window_def init_window_def clicked_def digits_ex)+



subsection \<open>Logarithmic axes\<close>

text \<open>
  Claim C2. Under the conditions of C1, with positive values on every logarithmic axis,
  every coordinate of a logarithmic axis is 10 to the power of the affine interpolation
  between \<open>log10 vMin\<close> and \<open>log10 vMax\<close>. In the example of the claim (pixels 0 and 3,
  values 1 and 1000) the pixels 1 and 2 give 10 and 100: the window \<open>log_window\<close>.
\<close>

theorem log_transform:
  assumes "located w pMin pMax qMin qMax" and "entered float_of w vMin vMax uMin uMax"
    and "data_points w \<noteq> []" and "path \<noteq> []" and "pMin \<noteq> pMax" and "qMin \<noteq> qMax"
    and "x_log ver w \<longrightarrow> 0 < vMin \<and> 0 < vMax" and "y_log ver w \<longrightarrow> 0 < uMin \<and> 0 < uMax"
  shows "\<exists>X Y. fst (save ver float_of str_of path w) =
             Written path (csv str_of (map (\<lambda>p. (X (fst p), Y (snd p))) (data_points w))) \<and>
           (x_log ver w \<longrightarrow>
              X = (\<lambda>p. 10 powr (log 10 vMin +
                     (p - pMin) * (log 10 vMax - log 10 vMin) / (pMax - pMin)))) \<and>
           (y_log ver w \<longrightarrow>
              Y = (\<lambda>q. 10 powr (log 10 uMin +
                     (q - qMin) * (log 10 uMax - log 10 uMin) / (qMax - qMin))))"
proof -
  let ?X = "toRealValue (x_log ver w) pMin pMax vMin vMax"
  let ?Y = "toRealValue (y_log ver w) qMin qMax uMin uMax"
  have "fst (save ver float_of str_of path w) =
          Written path (csv str_of (map (\<lambda>p. (?X (fst p), ?Y (snd p))) (data_points w)))"
    using assms by (simp add: save_ok)
  moreover have "x_log ver w \<longrightarrow> ?X = (\<lambda>p. 10 powr (log 10 vMin +
                     (p - pMin) * (log 10 vMax - log 10 vMin) / (pMax - pMin)))"
    by (simp add: toRealValue_def linear_value_def fun_eq_iff)
  moreover have "y_log ver w \<longrightarrow> ?Y = (\<lambda>q. 10 powr (log 10 uMin +
                     (q - qMin) * (log 10 uMax - log 10 uMin) / (qMax - qMin)))"
    by (simp add: toRealValue_def linear_value_def fun_eq_iff)
  ultimately show ?thesis by blast
qed

theorem log_transform_witness:
  "located log_window 0 3 0 3 \<and> entered float_text log_window 1 1000 1 1000 \<and>
   data_points log_window \<noteq> [] \<and> ''out.csv'' \<noteq> [] \<and> (0::real) \<noteq> 3 \<and>
   x_log V1 log_window \<and> y_log V1 log_window \<and> x_log V2 log_window \<and> y_log V2 log_window \<and>
   (0::real) < 1 \<and> (0::real) < 1000 \<and>
   fst (save V1 float_text str_float ''out.csv'' log_window) =
     Written ''out.csv'' (csv str_float [(10, 10), (100, 100)]) \<and>
   fst (save V2 float_text str_float ''out.csv'' log_window) =
     Written ''out.csv'' (csv str_float [(10, 10), (100, 100)])"
proof -
  note f = log_window_facts
  have ne: "data_points log_window \<noteq> []" "''out.csv'' \<noteq> []" "(0::real) \<noteq> 3"
    by (simp_all add: f(3))
  have pos: "x_log ver log_window \<longrightarrow> (0::real) < 1 \<and> (0::real) < 1000" for ver
    by simp
  have pos': "y_log ver log_window \<longrightarrow> (0::real) < 1 \<and> (0::real) < 1000" for ver
    by simp
  have a: "fst (save ver float_text str_float ''out.csv'' log_window) =
     Written ''out.csv'' (csv str_float [(10, 10), (100, 100)])" for ver
    using log_transform [OF f(1) f(2) ne(1) ne(2) ne(3) ne(3) pos pos', of ver str_float]
      f(4) [of ver] f(5) [of ver]
    by (auto simp add: f(3) log1000)
  from f(1,2) ne f(4) [of V1] f(5) [of V1] f(4) [of V2] f(5) [of V2] a [of V1] a [of V2]
  show ?thesis by simp
qed



subsection \<open>Zero pixel span and values outside the domain of the logarithm\<close>





lemma more_window_facts:
  "located no_points_window 0 100 0 100" "data_points no_points_window = []"
  "float_text (in_xmax no_points_window) = None"
  "pixels init_window = [None, None, None, None]" "data_points init_window = []"
  by (simp_all add: located_def no_points_window_def linear_window_def init_window_def
      init_calibration_def clicked_def digits_ex pixels_def items_def)


subsection \<open>Export without traced points\<close>

text \<open>
  Claim C10 says that an export with no traced point ends with the message
  \<^verbatim>\<open>No trace data points found.\<close> In both versions the check of the four locations comes
  first: in the initial window, which has no traced point and no location, the message is
  the one about the missing location.
\<close>

theorem no_data_counterexample:
  "data_points init_window = [] \<and>
   fst (save_data float_text str_float ''out.csv'' init_window) =
     Warning ''Calibration Error'' ''Missing x_min location on the graph.'' \<and>
   fst (save_data_v2 float_text str_float ''out.csv'' init_window) =
     Warning ''Calibration Missing''
       (''You forgot to set the location for:'' @ newline @
        ''- X Min'' @ newline @ ''- X Max'' @ newline @ ''- Y Min'' @ newline @ ''- Y Max'')"
  by (simp add: save_data_def save_data_v2_def init_window_def init_calibration_def items_def
      missing_msg_def)


text \<open>
  Claim C10 as amended. When the four locations have been clicked and no point is traced,
  both versions show \<^verbatim>\<open>No trace data points found.\<close> and leave the window as it was; no
  file is written. The value texts are not looked at: the statement holds for every content
  of the text fields and every behaviour of \<^verbatim>\<open>float()\<close>.
\<close>

theorem no_data_rejected:
  assumes "located w pMin pMax qMin qMax" and "data_points w = []"
  shows "save ver float_of str_of path w =
           (Warning ''Data Error'' ''No trace data points found.'', w)"
proof -
  have "None \<notin> set (pixels w)"
    using assms(1) pixels_located by blast
  then show ?thesis
    using assms(2) by (rule save_no_data)
qed

theorem no_data_rejected_witness:
  "located no_points_window 0 100 0 100 \<and> data_points no_points_window = [] \<and>
   float_text (in_xmax no_points_window) = None \<and>
   save V1 float_text str_float ''out.csv'' no_points_window =
     (Warning ''Data Error'' ''No trace data points found.'', no_points_window) \<and>
   save V2 float_text str_float ''out.csv'' no_points_window =
     (Warning ''Data Error'' ''No trace data points found.'', no_points_window)"
  using no_data_rejected [OF more_window_facts(1) more_window_facts(2), of V1 float_text str_float "''out.csv''"]
    no_data_rejected [OF more_window_facts(1) more_window_facts(2), of V2 float_text str_float "''out.csv''"]
    more_window_facts(1,2,3)
  by simp


subsection \<open>Missing anchor locations\<close>

text \<open>
  Claim C4. With the locations of X Min and Y Max missing, version 1 reports the first one
  only, by its key \<^verbatim>\<open>x_min\<close>; version 2 lists both by name. The lemma
  \<open>missing_listed_v2\<close> states the behaviour of version 2 for every window.
\<close>

theorem missing_anchors_first_only:
  "pixels two_missing_window = [None, Some 100, Some 0, None] \<and>
   save_data float_text str_float ''out.csv'' two_missing_window =
     (Warning ''Calibration Error'' ''Missing x_min location on the graph.'', two_missing_window) \<and>
   save_data_v2 float_text str_float ''out.csv'' two_missing_window =
     (Warning ''Calibration Missing''
        (''You forgot to set the location for:'' @ newline @ ''- X Min'' @ newline @ ''- Y Max''),
      two_missing_window)"
  by (simp add: save_data_def save_data_v2_def two_missing_window_def two_missing_def
      linear_window_def init_window_def items_def missing_msg_def pixels_def)

lemma missing_cal_filter:
  "missing_cal kds = map (\<lambda>kd. name (snd kd)) (filter (\<lambda>kd. pixel (snd kd) = None) kds)"
  by (induction kds rule: missing_cal.induct) simp_all

lemma missing_listed_v2:
  assumes "None \<in> set (pixels w)"
  shows "save_data_v2 float_of str_of path w =
     (Warning ''Calibration Missing''
        (''You forgot to set the location for:'' @ newline @
         join newline (map (\<lambda>kd. ''- '' @ name (snd kd))
           (filter (\<lambda>kd. pixel (snd kd) = None) (items (calibration w))))), w)"
proof -
  from assms have "missing_cal (items (calibration w)) \<noteq> []"
    by (simp add: missing_cal_pixels)
  then show ?thesis
    by (simp add: save_data_v2_def missing_msg_def missing_cal_filter comp_def)
qed



subsection \<open>The state after an operation that failed\<close>

lemma save_keeps:
  "data_points (snd (save ver float_of str_of path w)) = data_points w"
  "pixels (snd (save ver float_of str_of path w)) = pixels w"
proof -
  have "data_points (snd (save ver float_of str_of path w)) = data_points w \<and>
        pixels (snd (save ver float_of str_of path w)) = pixels w"
  proof (cases "None \<in> set (pixels w)")
    case True
    from save_missing [OF True, of ver float_of str_of path] show ?thesis by auto
  next
    case px: False
    show ?thesis
    proof (cases "data_points w = []")
      case True
      with px show ?thesis by (simp add: save_no_data)
    next
      case False
      obtain r w' where rw: "read_axes float_of w = (r, w')" by (cases "read_axes float_of w")
      from read_axes_keeps [of float_of w] rw
      have "data_points w' = data_points w" "pixels w' = pixels w" by simp_all
      then show ?thesis
        by (simp add: save_read [OF px False] rw split: option.splits)
    qed
  qed
  then show "data_points (snd (save ver float_of str_of path w)) = data_points w"
    "pixels (snd (save ver float_of str_of path w)) = pixels w" by simp_all
qed

lemma save_early_failure:
  assumes "save ver float_of str_of path w = (out, w')" "failed out"
    and "out \<noteq> input_invalid" "\<forall>e. out \<noteq> Raised e"
  shows "w' = w"
proof (cases "None \<in> set (pixels w)")
  case True
  from save_missing [OF True, of ver float_of str_of path] assms(1) show ?thesis by auto
next
  case px: False
  show ?thesis
  proof (cases "data_points w = []")
    case True
    with px assms(1) show ?thesis by (simp add: save_no_data)
  next
    case False
    obtain r v where rw: "read_axes float_of w = (r, v)" by (cases "read_axes float_of w")
    from read_axes_cases [OF rw] show ?thesis
    proof (elim disjE conjE exE)
      assume "r = Some input_empty" "v = w"
      with assms(1) rw show ?thesis by (simp add: save_read [OF px False])
    next
      assume "r = Some input_invalid"
      with assms(1,3) rw show ?thesis by (simp add: save_read [OF px False])
    next
      fix a b c d
      assume "r = None"
      with assms(1) rw have "out = export (x_log ver v) (y_log ver v) str_of path v"
        by (auto simp add: save_read [OF px False])
      with assms(2,4) show ?thesis
        by (cases "real_data (x_log ver v) (y_log ver v) (calibration v) (data_points v)")
           (auto simp add: export_def split: if_splits)
    qed
  qed
qed


text \<open>
  Claim C8 says that a failed operation leaves calibration and traced points as they were.
  When the text for X Max is no number, the value for X Min has already been stored.
\<close>

theorem partial_write_counterexample:
  "val (x_min (calibration bad_xmax_window)) = None \<and>
   fst (save_data float_text str_float ''out.csv'' bad_xmax_window) =
     Warning ''Input Error'' ''Axes values must be valid numbers.'' \<and>
   val (x_min (calibration (snd (save_data float_text str_float ''out.csv'' bad_xmax_window)))) =
     Some 0 \<and>
   fst (save_data_v2 float_text str_float ''out.csv'' bad_xmax_window) =
     Warning ''Input Error'' ''Axes values must be valid numbers.'' \<and>
   val (x_min (calibration (snd (save_data_v2 float_text str_float ''out.csv'' bad_xmax_window)))) =
     Some 0"
  by (simp add: save_data_def save_data_v2_def bad_xmax_window_def linear_window_def
      init_window_def clicked_def items_def read_axes_def digits_ex input_invalid_def
      set_x_min_val_def)


text \<open>
  Claim C8 as amended. A call of \<^verbatim>\<open>save_data\<close> that ends in a message box or an exception
  leaves the traced points and the four anchor pixels as they were; when the message is
  about a missing location, missing points or an empty value text, the whole window is
  unchanged. A call of \<^verbatim>\<open>select_by_color\<close> that ends with \<^verbatim>\<open>Invalid color inputs.\<close>
  leaves the window unchanged.
\<close>

theorem failed_operations_state:
  "(save ver float_of str_of path w = (out, w') \<longrightarrow> failed out \<longrightarrow>
      data_points w' = data_points w \<and> pixels w' = pixels w \<and>
      (out \<noteq> input_invalid \<and> (\<forall>e. out \<noteq> Raised e) \<longrightarrow> w' = w)) \<and>
   (select_by_color int_of float_of' w = (Some Invalid_color_inputs, w'') \<longrightarrow> w'' = w)"
proof (intro conjI impI)
  assume s: "save ver float_of str_of path w = (out, w')"
  from save_keeps [of ver float_of str_of path w] s
  show "data_points w' = data_points w" "pixels w' = pixels w" by simp_all
next
  assume "save ver float_of str_of path w = (out, w')" "failed out"
    "out \<noteq> input_invalid \<and> (\<forall>e. out \<noteq> Raised e)"
  then show "w' = w" using save_early_failure by blast
next
  assume "select_by_color int_of float_of' w = (Some Invalid_color_inputs, w'')"
  then show "w'' = w"
    by (auto simp add: select_by_color_def Let_def split: option.splits)
qed

theorem failed_operations_state_witness:
  "save V2 float_text str_float ''out.csv'' bad_xmax_window =
     (input_invalid, set_x_min_val 0 bad_xmax_window) \<and> failed input_invalid \<and>
   data_points (set_x_min_val 0 bad_xmax_window) = data_points bad_xmax_window \<and>
   pixels (set_x_min_val 0 bad_xmax_window) = pixels bad_xmax_window \<and>
   save V1 float_text str_float ''out.csv'' no_points_window =
     (Warning ''Data Error'' ''No trace data points found.'', no_points_window) \<and>
   failed (Warning ''Data Error'' ''No trace data points found.'') \<and>
   Warning ''Data Error'' ''No trace data points found.'' \<noteq> input_invalid \<and>
   select_by_color int_text float_text bad_color_window =
     (Some Invalid_color_inputs, bad_color_window)"
proof -
  have a: "save V2 float_text str_float ''out.csv'' bad_xmax_window =
     (input_invalid, set_x_min_val 0 bad_xmax_window)"
    by (simp add: save_data_v2_def bad_xmax_window_def linear_window_def
      init_window_def clicked_def items_def read_axes_def digits_ex)
  have b: "save V1 float_text str_float ''out.csv'' no_points_window =
     (Warning ''Data Error'' ''No trace data points found.'', no_points_window)"
    using more_window_facts(1,2) pixels_located save_no_data by blast
  have c: "select_by_color int_text float_text bad_color_window =
     (Some Invalid_color_inputs, bad_color_window)"
    by (simp add: select_by_color_def bad_color_window_def init_window_def int_text_def)
  have d: "failed input_invalid" "Warning ''Data Error'' ''No trace data points found.'' \<noteq> input_invalid"
    by (simp_all add: input_invalid_def)
  note t1 = failed_operations_state [where ver = V2 and float_of = float_text
      and str_of = str_float and path = "''out.csv''" and w = bad_xmax_window
      and out = input_invalid and w' = "set_x_min_val 0 bad_xmax_window"]
  note t2 = failed_operations_state [where ver = V1 and float_of = float_text
      and str_of = str_float and path = "''out.csv''" and w = no_points_window
      and out = "Warning ''Data Error'' ''No trace data points found.''"
      and w' = no_points_window]
  note t3 = failed_operations_state [where w = bad_color_window and int_of = int_text
      and float_of' = float_text and w'' = bad_color_window]
  from t1 t2 t3 a b c d show ?thesis by simp
qed



subsection \<open>The exported file\<close>





subsection \<open>Colour extraction: matching, columns and means\<close>

lemma set_np_where: "set (np_where im target tol) = matches im target tol"
  by (auto simp add: np_where_def matches_def)

lemma distinct_rows:
  assumes "distinct ys" "\<And>y. distinct (f y)"
  shows "distinct (concat (map (\<lambda>y. map (\<lambda>x. (y, x)) (f y)) ys))"
  using assms(1)
proof (induction ys)
  case Nil
  show ?case by simp
next
  case (Cons y ys)
  then show ?case
    using assms(2) by (auto simp add: distinct_map inj_on_def)
qed

lemma distinct_np_where: "distinct (np_where im target tol)"
  unfolding np_where_def by (rule distinct_rows) simp_all

lemma distinct_remdups_adj_sorted:
  fixes xs :: "nat list"
  shows "sorted xs \<Longrightarrow> distinct (remdups_adj xs)"
  by (induction xs rule: remdups_adj.induct) auto

lemma np_unique_sorted_list: "np_unique xs = sorted_list_of_set (set xs)"
proof -
  have "sorted (np_unique xs)" "distinct (np_unique xs)" "set (np_unique xs) = set xs"
    by (simp_all add: np_unique_def distinct_remdups_adj_sorted)
  then show ?thesis
    by (metis sorted_list_of_set.idem_if_sorted_distinct)
qed

lemma column_mean:
  assumes "distinct idx"
  shows "np_mean (map fst (filter (\<lambda>i. snd i = ux) idx)) =
         (\<Sum>y \<in> {y. (y, ux) \<in> set idx}. real y) / real (card {y. (y, ux) \<in> set idx})"
proof -
  let ?ys = "map fst (filter (\<lambda>i. snd i = ux) idx)"
  have d: "distinct ?ys"
    using assms by (auto simp add: distinct_map inj_on_def)
  have s: "set ?ys = {y. (y, ux) \<in> set idx}"
    by force
  have "sum_list (map real ?ys) = (\<Sum>y \<in> set ?ys. real y)"
    using d by (rule sum_list_distinct_conv_sum_set)
  moreover have "length ?ys = card (set ?ys)"
    using distinct_card [OF d] by (simp only:)
  ultimately show ?thesis
    unfolding np_mean_def s by simp
qed

lemma new_points_columns:
  assumes "distinct idx"
  shows "new_points idx =
     map (\<lambda>x. (real x, (\<Sum>y \<in> {y. (y, x) \<in> set idx}. real y) /
                        real (card {y. (y, x) \<in> set idx})))
         (sorted_list_of_set {x. \<exists>y. (y, x) \<in> set idx})"
proof -
  have "set (map snd idx) = {x. \<exists>y. (y, x) \<in> set idx}"
    by force
  then show ?thesis
    by (simp add: new_points_def np_unique_sorted_list column_mean [OF assms])
qed

lemma sqrt_less_pos:
  fixes t :: real
  assumes "0 < t"
  shows "sqrt x < t \<longleftrightarrow> x < t\<^sup>2"
proof -
  have "sqrt x < sqrt (t\<^sup>2) \<longleftrightarrow> x < t\<^sup>2" by (rule real_sqrt_less_iff)
  moreover have "sqrt (t\<^sup>2) = t" using assms by simp
  ultimately show ?thesis by simp
qed

lemma dist_rgb:
  "dist (c0 # c1 # c2 # rest) [t0, t1, t2] = sqrt ((c0 - t0)\<^sup>2 + (c1 - t1)\<^sup>2 + (c2 - t2)\<^sup>2)"
  by (simp add: dist_def numeral_3_eq_3)

lemma dist_nonneg: "0 \<le> dist px target"
  unfolding dist_def by (rule real_sqrt_ge_zero, rule sum_list_nonneg) auto

lemma np_where_nonpositive:
  assumes "tol \<le> 0"
  shows "np_where im target tol = []"
proof -
  have "\<not> dist px target < tol" for px
    using assms dist_nonneg [of px target] by simp
  then show ?thesis
    by (simp add: np_where_def)
qed

lemma demo_dists:
  "dist black [0, 0, 0] = 0" "dist white [0, 0, 0] = sqrt 3"
  by (simp_all add: black_def white_def dist_rgb)

lemma sqrt_3_far: "\<not> sqrt 3 * 10 < (1::real)"
proof -
  have "1 \<le> sqrt (3::real)" by simp
  then show ?thesis by linarith
qed

lemma demo_np_where:
  "np_where demo_image [0, 0, 0] (1 / 10) = [(0, 0), (1, 1), (2, 0)]"
  by (simp add: np_where_def demo_image_def demo_dists sqrt_3_far upt_rec_numeral)

lemma demo_new_points:
  "new_points [(0, 0), (1, 1), (2, 0)] = [(0, 1), (1, 1)]"
  by (simp add: new_points_def np_unique_def np_mean_def)

lemma select_by_color_parsed:
  assumes "img w = Some im" and "int_of (in_r w) = Some r" and "int_of (in_g w) = Some g"
    and "int_of (in_b w) = Some b" and "float_of (in_tol w) = Some t"
  shows "select_by_color int_of float_of w =
     (Some (Auto_traced (length (new_points (np_where im
         [real_of_int r / 255, real_of_int g / 255, real_of_int b / 255] (t / 100))))),
      w\<lparr>data_points := data_points w @ new_points (np_where im
         [real_of_int r / 255, real_of_int g / 255, real_of_int b / 255] (t / 100))\<rparr>)"
  using assms by (simp add: select_by_color_def Let_def)

lemma color_window_facts:
  "img (color_window r tol) = Some demo_image" "data_points (color_window r tol) = []"
  "in_r (color_window r tol) = r" "in_g (color_window r tol) = ''0''"
  "in_b (color_window r tol) = ''0''" "in_tol (color_window r tol) = tol"
  by (simp_all add: color_window_def init_window_def)

lemma text_facts:
  "int_text ''0'' = Some 0" "int_text ''300'' = Some 300" "int_text ''red'' = None"
  "float_text ''10'' = Some 10"
  by (simp_all add: float_text_def int_text_def)

lemma demo_select:
  "select_by_color int_text float_text (color_window ''0'' ''10'') =
     (Some (Auto_traced 2), (color_window ''0'' ''10'')\<lparr>data_points := [(0, 1), (1, 1)]\<rparr>)"
proof -
  have np: "new_points (np_where demo_image [0, 0, 0] (1 / 10)) = [(0, 1), (1, 1)]"
    by (simp only: demo_np_where demo_new_points)
  show ?thesis
    by (simp add: select_by_color_parsed [OF color_window_facts(1)] color_window_facts
        text_facts np)
qed

lemma finite_matches: "finite (matches im target tol)"
  using set_np_where [of im target tol, symmetric] by simp

lemma far_target_dists:
  "dist black [20 / 17, 0, 0] < 10" "dist white [20 / 17, 0, 0] < 10"
  unfolding black_def white_def dist_rgb
  by (subst sqrt_less_pos; simp add: power2_eq_square)+

lemma far_target_np_where:
  "np_where demo_image [20 / 17, 0, 0] 10 =
     [(0, 0), (0, 1), (0, 2), (1, 0), (1, 1), (1, 2), (2, 0), (2, 1), (2, 2)]"
  by (simp add: np_where_def demo_image_def far_target_dists upt_rec_numeral)

lemma far_target_new_points:
  "new_points [(0, 0), (0, 1), (0, 2), (1, 0), (1, 1), (1, 2), (2, 0), (2, 1), (2, 2)] =
     [(0, 1), (1, 1), (2, 1)]"
  by (simp add: new_points_def np_unique_def np_mean_def)

text \<open>
  Claim C5 says that a pixel at a distance within the tolerance matches, and that an exactly
  matching target with tolerance zero returns the points (0, 1.0) and (1, 1.0) on the image
  of the example. The comparison of the source is \<^verbatim>\<open>dist < tol\<close>: with tolerance zero no
  pixel matches and no point is added.
\<close>

theorem zero_tolerance_counterexample:
  "select_by_color int_text float_text (color_window ''0'' ''0'') =
     (Some (Auto_traced 0), color_window ''0'' ''0'')"
  by (simp add: select_by_color_parsed [OF color_window_facts(1)] color_window_facts text_facts
      digits_ex np_where_nonpositive new_points_def np_unique_def)

text \<open>
  Claim C5 as amended. With an image loaded and the four texts parsed, the matches are the
  positions whose first three channels are at a Euclidean distance strictly less than
  \<open>t / 100\<close> from the target divided by 255; a fourth channel does not take part. A
  tolerance that is not positive matches nothing. On the image of the example a tolerance
  of 10 gives the points (0, 1.0) and (1, 1.0).
\<close>

theorem color_match_strict:
  assumes "img w = Some im" and "int_of (in_r w) = Some r" and "int_of (in_g w) = Some g"
    and "int_of (in_b w) = Some b" and "float_of (in_tol w) = Some t"
  shows "(\<exists>idx. select_by_color int_of float_of w =
            (Some (Auto_traced (length (new_points idx))),
             w\<lparr>data_points := data_points w @ new_points idx\<rparr>) \<and>
          set idx = {(y, x). y < length im \<and> x < length (im ! y) \<and>
             dist (im ! y ! x) [real_of_int r / 255, real_of_int g / 255, real_of_int b / 255]
               < t / 100} \<and>
          (t \<le> 0 \<longrightarrow> idx = [])) \<and>
         (\<forall>c0 c1 c2 rest t0 t1 t2. dist (c0 # c1 # c2 # rest) [t0, t1, t2] =
            sqrt ((c0 - t0)\<^sup>2 + (c1 - t1)\<^sup>2 + (c2 - t2)\<^sup>2))"
proof -
  let ?idx = "np_where im [real_of_int r / 255, real_of_int g / 255, real_of_int b / 255] (t / 100)"
  have "select_by_color int_of float_of w =
            (Some (Auto_traced (length (new_points ?idx))),
             w\<lparr>data_points := data_points w @ new_points ?idx\<rparr>)"
    using assms by (rule select_by_color_parsed)
  moreover have "set ?idx = {(y, x). y < length im \<and> x < length (im ! y) \<and>
             dist (im ! y ! x) [real_of_int r / 255, real_of_int g / 255, real_of_int b / 255]
               < t / 100}"
    by (simp add: set_np_where matches_def)
  moreover have "t \<le> 0 \<longrightarrow> ?idx = []"
    by (simp add: np_where_nonpositive)
  ultimately show ?thesis
    using dist_rgb by blast
qed

theorem color_match_strict_witness:
  "img (color_window ''0'' ''10'') = Some demo_image \<and>
   int_text (in_r (color_window ''0'' ''10'')) = Some 0 \<and>
   int_text (in_g (color_window ''0'' ''10'')) = Some 0 \<and>
   int_text (in_b (color_window ''0'' ''10'')) = Some 0 \<and>
   float_text (in_tol (color_window ''0'' ''10'')) = Some 10 \<and>
   float_text (in_tol (color_window ''0'' ''0'')) = Some 0 \<and> (0::real) \<le> 0 \<and>
   (\<exists>idx. select_by_color int_text float_text (color_window ''0'' ''10'') =
            (Some (Auto_traced (length (new_points idx))),
             (color_window ''0'' ''10'')\<lparr>data_points := new_points idx\<rparr>) \<and>
          set idx = {(0, 0), (1, 1), (2, 0)}) \<and>
   (\<exists>idx. select_by_color int_text float_text (color_window ''0'' ''0'') =
            (Some (Auto_traced (length (new_points idx))),
             (color_window ''0'' ''0'')\<lparr>data_points := new_points idx\<rparr>) \<and> idx = []) \<and>
   select_by_color int_text float_text (color_window ''0'' ''10'') =
     (Some (Auto_traced 2), (color_window ''0'' ''10'')\<lparr>data_points := [(0, 1), (1, 1)]\<rparr>)"
proof -
  note f = color_window_facts
  have p: "int_text (in_r (color_window ''0'' tol)) = Some 0"
      "int_text (in_g (color_window ''0'' tol)) = Some 0"
      "int_text (in_b (color_window ''0'' tol)) = Some 0" for tol
    by (simp_all add: f text_facts)
  have t10: "float_text (in_tol (color_window ''0'' ''10'')) = Some 10"
    and t0: "float_text (in_tol (color_window ''0'' ''0'')) = Some 0"
    by (simp_all add: f text_facts digits_ex)
  have m: "{(y, x). y < length demo_image \<and> x < length (demo_image ! y) \<and>
             dist (demo_image ! y ! x) [real_of_int 0 / 255, real_of_int 0 / 255, real_of_int 0 / 255]
               < 10 / 100} = {(0, 0), (1, 1), (2, 0)}"
    using set_np_where [of demo_image "[0, 0, 0]" "1 / 10"]
    by (simp add: demo_np_where matches_def)
  from color_match_strict [where w = "color_window ''0'' ''10''" and int_of = int_text
      and float_of = float_text and im = demo_image and r = 0 and g = 0 and b = 0 and t = 10,
      OF f(1) p(1) p(2) p(3) t10]
  have a: "\<exists>idx. select_by_color int_text float_text (color_window ''0'' ''10'') =
            (Some (Auto_traced (length (new_points idx))),
             (color_window ''0'' ''10'')\<lparr>data_points := new_points idx\<rparr>) \<and>
          set idx = {(0, 0), (1, 1), (2, 0)}"
    unfolding m by (auto simp add: f)
  from color_match_strict [where w = "color_window ''0'' ''0''" and int_of = int_text
      and float_of = float_text and im = demo_image and r = 0 and g = 0 and b = 0 and t = 0,
      OF f(1) p(1) p(2) p(3) t0]
  have b: "\<exists>idx. select_by_color int_text float_text (color_window ''0'' ''0'') =
            (Some (Auto_traced (length (new_points idx))),
             (color_window ''0'' ''0'')\<lparr>data_points := new_points idx\<rparr>) \<and> idx = []"
    by (auto simp add: f)
  from f(1) [of "''0''" "''10''"] p [of "''10''"] t10 t0 a b demo_select
  show ?thesis by simp
qed

text \<open>
  Claim C6. The points added by the extraction are one per column that holds a match, in
  strictly ascending order of the column; the first coordinate is the column, the second
  the sum of the matching rows of the column divided by their number.
\<close>

theorem one_point_per_column:
  assumes "img w = Some im" and "int_of (in_r w) = Some r" and "int_of (in_g w) = Some g"
    and "int_of (in_b w) = Some b" and "float_of (in_tol w) = Some t"
    and "M = matches im [real_of_int r / 255, real_of_int g / 255, real_of_int b / 255] (t / 100)"
    and "pts = map (\<lambda>x. (real x, (\<Sum>y \<in> {y. (y, x) \<in> M}. real y) / real (card {y. (y, x) \<in> M})))
                   (sorted_list_of_set {x. \<exists>y. (y, x) \<in> M})"
  shows "snd (select_by_color int_of float_of w) = w\<lparr>data_points := data_points w @ pts\<rparr> \<and>
         finite {x. \<exists>y. (y, x) \<in> M} \<and>
         set (map fst pts) = real ` {x. \<exists>y. (y, x) \<in> M} \<and>
         sorted_wrt (<) (map fst pts)"
proof -
  let ?idx = "np_where im [real_of_int r / 255, real_of_int g / 255, real_of_int b / 255] (t / 100)"
  have M: "set ?idx = M"
    by (simp add: set_np_where assms(6))
  have np: "new_points ?idx = pts"
    unfolding new_points_columns [OF distinct_np_where] M assms(7) ..
  have cols: "{x. \<exists>y. (y, x) \<in> M} = snd ` M"
    by force
  have fin: "finite {x. \<exists>y. (y, x) \<in> M}"
    unfolding cols using finite_matches assms(6) by simp
  have fst_pts: "map fst pts = map real (sorted_list_of_set {x. \<exists>y. (y, x) \<in> M})"
    by (simp add: assms(7) comp_def)
  have "sorted_wrt (<) (sorted_list_of_set {x. \<exists>y. (y, x) \<in> M})"
    by (simp add: strict_sorted_iff)
  then have asc: "sorted_wrt (<) (map fst pts)"
    unfolding fst_pts by (simp add: sorted_wrt_map)
  have st: "set (map fst pts) = real ` {x. \<exists>y. (y, x) \<in> M}"
    unfolding fst_pts using fin by simp
  have "snd (select_by_color int_of float_of w) = w\<lparr>data_points := data_points w @ pts\<rparr>"
    by (simp add: select_by_color_parsed [where int_of = int_of and float_of = float_of,
        OF assms(1-5)] np)
  with fin st asc show ?thesis by simp
qed

theorem one_point_per_column_witness:
  "img (color_window ''0'' ''10'') = Some demo_image \<and>
   int_text (in_r (color_window ''0'' ''10'')) = Some 0 \<and>
   int_text (in_g (color_window ''0'' ''10'')) = Some 0 \<and>
   int_text (in_b (color_window ''0'' ''10'')) = Some 0 \<and>
   float_text (in_tol (color_window ''0'' ''10'')) = Some 10 \<and>
   demo_matches =
     matches demo_image [real_of_int 0 / 255, real_of_int 0 / 255, real_of_int 0 / 255] (10 / 100) \<and>
   map (\<lambda>x. (real x, (\<Sum>y \<in> {y. (y, x) \<in> demo_matches}. real y) /
                      real (card {y. (y, x) \<in> demo_matches})))
       (sorted_list_of_set {x. \<exists>y. (y, x) \<in> demo_matches}) =
     [(0, 1), (1, 1)] \<and>
   snd (select_by_color int_text float_text (color_window ''0'' ''10'')) =
     (color_window ''0'' ''10'')\<lparr>data_points := [(0, 1), (1, 1)]\<rparr>"
proof -
  note f = color_window_facts
  let ?pts = "map (\<lambda>x. (real x, (\<Sum>y \<in> {y. (y, x) \<in> demo_matches}. real y) /
                      real (card {y. (y, x) \<in> demo_matches})))
       (sorted_list_of_set {x. \<exists>y. (y, x) \<in> demo_matches})"
  have p: "int_text (in_r (color_window ''0'' ''10'')) = Some 0"
      "int_text (in_g (color_window ''0'' ''10'')) = Some 0"
      "int_text (in_b (color_window ''0'' ''10'')) = Some 0"
      "float_text (in_tol (color_window ''0'' ''10'')) = Some 10"
    by (simp_all add: f text_facts)
  have m: "demo_matches =
     matches demo_image [real_of_int 0 / 255, real_of_int 0 / 255, real_of_int 0 / 255] (10 / 100)"
    using set_np_where [of demo_image "[0, 0, 0]" "1 / 10"]
    by (simp add: demo_np_where demo_matches_def)
  note t = one_point_per_column [where w = "color_window ''0'' ''10''" and int_of = int_text
      and float_of = float_text and im = demo_image and r = 0 and g = 0 and b = 0 and t = 10
      and M = demo_matches and pts = ?pts, OF f(1) p(1) p(2) p(3) p(4) m refl]
  from t have "data_points (snd (select_by_color int_text float_text (color_window ''0'' ''10''))) =
     data_points (color_window ''0'' ''10'') @ ?pts"
    by simp
  then have e: "?pts = [(0, 1), (1, 1)]"
    by (simp add: demo_select f(2))
  from f(1) p m e demo_select show ?thesis by simp
qed

text \<open>
  Claim C7 says that a colour component outside 0..255 and a negative tolerance are
  rejected. The source checks neither: with the texts 300 for R and 1000 for the
  tolerance every pixel of the example image matches and three points are added.
\<close>

theorem out_of_range_color_counterexample:
  "select_by_color int_text float_text (color_window ''300'' ''1000'') =
     (Some (Auto_traced 3),
      (color_window ''300'' ''1000'')\<lparr>data_points := [(0, 1), (1, 1), (2, 1)]\<rparr>)"
proof -
  have tgt: "[real_of_int 300 / 255, real_of_int 0 / 255, real_of_int 0 / 255] = [20 / 17, 0, 0]"
    by simp
  have tol: "(1000::real) / 100 = 10"
    by simp
  have np: "new_points (np_where demo_image
      [real_of_int 300 / 255, real_of_int 0 / 255, real_of_int 0 / 255] (1000 / 100)) =
      [(0, 1), (1, 1), (2, 1)]"
    by (simp only: tgt tol far_target_np_where far_target_new_points)
  have sel: "select_by_color int_text float_text (color_window ''300'' ''1000'') =
     (Some (Auto_traced (length (new_points (np_where demo_image
         [real_of_int 300 / 255, real_of_int 0 / 255, real_of_int 0 / 255] (1000 / 100))))),
      (color_window ''300'' ''1000'')\<lparr>data_points := data_points (color_window ''300'' ''1000'') @
         new_points (np_where demo_image
         [real_of_int 300 / 255, real_of_int 0 / 255, real_of_int 0 / 255] (1000 / 100))\<rparr>)"
    by (rule select_by_color_parsed) (simp_all add: color_window_facts text_facts digits_ex)
  show ?thesis
    unfolding sel np by (simp add: color_window_facts)
qed

text \<open>
  Claim C7 as amended. With an image loaded, a colour text that \<^verbatim>\<open>int()\<close> rejects or a
  tolerance text that \<^verbatim>\<open>float()\<close> rejects ends the extraction with
  \<^verbatim>\<open>Invalid color inputs.\<close> and an unchanged window.
\<close>

theorem unparsed_color_rejected:
  assumes "img w = Some im"
    and "int_of (in_r w) = None \<or> int_of (in_g w) = None \<or> int_of (in_b w) = None \<or>
         float_of (in_tol w) = None"
  shows "select_by_color int_of float_of w = (Some Invalid_color_inputs, w)"
  using assms by (auto simp add: select_by_color_def split: option.splits)

theorem unparsed_color_rejected_witness:
  "img bad_color_window = Some [[[0, 0, 0]]] \<and> int_text (in_r bad_color_window) = None \<and>
   select_by_color int_text float_text bad_color_window =
     (Some Invalid_color_inputs, bad_color_window)"
proof -
  have a: "img bad_color_window = Some [[[0, 0, 0]]]"
    by (simp add: bad_color_window_def)
  have b: "int_text (in_r bad_color_window) = None"
    by (simp add: bad_color_window_def text_facts)
  from b have c: "int_text (in_r bad_color_window) = None \<or> int_text (in_g bad_color_window) = None \<or>
      int_text (in_b bad_color_window) = None \<or> float_text (in_tol bad_color_window) = None"
    by simp
  from unparsed_color_rejected [where int_of = int_text and float_of = float_text, OF a c] a b
  show ?thesis by simp
qed

end
